theory Spec2Isabelle
  imports Complex_Main "HOL-Library.Sublist"
begin

section \<open>Python values and built-ins used by the agent\<close>

text \<open>
  Strings are lists of 8-bit characters. The built-ins \<^verbatim>\<open>str.strip\<close>, \<^verbatim>\<open>str.upper\<close>
  and \<^verbatim>\<open>int(str)\<close> are modelled on ASCII text: whitespace is the ASCII whitespace
  Python strips (codes 9-13 and 28-32), only \<^verbatim>\<open>a-z\<close> change under \<^verbatim>\<open>upper\<close>, and
  \<^verbatim>\<open>int\<close> reads an optional sign followed by decimal digits that may be separated by
  single underscores.

  The numbers \<^verbatim>\<open>cell_width\<close> and \<^verbatim>\<open>cell_height\<close> are Python floats (or ints, in the
  test configuration). They are modelled as exact rationals: rounding of the binary
  floating-point operations is not part of this model.
\<close>

datatype json =
    JNull
  | JBool bool
  | JInt int
  | JStr string
  | JArr "json list"
  | JObj "(string \<times> json) list"

datatype error =
    InvalidGridFormat string
  | InvalidColumn char
  | InvalidRowNotNumber string
  | InvalidRowRange int
  | ValueError
  | IndexError
  | KeyError
  | TypeError
  | AttributeError
  | ZeroDivisionError
  | NoTextContent
  | InvalidJSON string
  | MissingActionField
  | InvalidActionType json
  | MissingField string string
  | InvalidScrollValue json
  | ApiError
  | ApiCallFailed error
  | CaptureFailed
  | DeviceError

definition py_isspace :: "char \<Rightarrow> bool" where
  "py_isspace c = (let n = (of_char c :: nat) in (9 \<le> n \<and> n \<le> 13) \<or> (28 \<le> n \<and> n \<le> 32))"

definition py_strip :: "string \<Rightarrow> string" where
  "py_strip s = rev (dropWhile py_isspace (rev (dropWhile py_isspace s)))"

definition upper_char :: "char \<Rightarrow> char" where
  "upper_char c = (let n = (of_char c :: nat) in
     if 97 \<le> n \<and> n \<le> 122 then char_of (n - 32) else c)"

definition py_upper :: "string \<Rightarrow> string" where
  "py_upper s = map upper_char s"

definition is_digit :: "char \<Rightarrow> bool" where
  "is_digit c = (let n = (of_char c :: nat) in 48 \<le> n \<and> n \<le> 57)"

definition digit_val :: "char \<Rightarrow> nat" where
  "digit_val c = of_char c - 48"

definition digit_char :: "nat \<Rightarrow> char" where
  "digit_char d = char_of (48 + d)"

text \<open>The digits of \<^verbatim>\<open>int(str)\<close> after the first one: \<^verbatim>\<open>digit (["_"] digit)*\<close>.\<close>

fun parse_digits :: "nat \<Rightarrow> string \<Rightarrow> nat option" where
  "parse_digits acc [] = Some acc"
| "parse_digits acc (c # cs) =
     (if is_digit c then parse_digits (10 * acc + digit_val c) cs
      else if c = CHR ''_'' then
        (case cs of
           [] \<Rightarrow> None
         | d # ds \<Rightarrow> if is_digit d then parse_digits (10 * acc + digit_val d) ds else None)
      else None)"

definition parse_unsigned :: "string \<Rightarrow> nat option" where
  "parse_unsigned s =
     (case s of
        [] \<Rightarrow> None
      | c # cs \<Rightarrow> if is_digit c then parse_digits (digit_val c) cs else None)"

text \<open>\<^verbatim>\<open>int(s)\<close> for a string; \<open>None\<close> stands for the \<^verbatim>\<open>ValueError\<close> it raises.\<close>

definition py_int :: "string \<Rightarrow> int option" where
  "py_int s =
     (case py_strip s of
        [] \<Rightarrow> None
      | c # cs \<Rightarrow>
          if c = CHR ''-'' then map_option (\<lambda>n. - int n) (parse_unsigned cs)
          else if c = CHR ''+'' then map_option int (parse_unsigned cs)
          else map_option int (parse_unsigned (c # cs)))"

fun nat_digits :: "nat \<Rightarrow> string" where
  "nat_digits n =
     (if n < 10 then [digit_char n] else nat_digits (n div 10) @ [digit_char (n mod 10)])"

declare nat_digits.simps [simp del]

text \<open>\<^verbatim>\<open>str(i)\<close> for an int, as the f-string \<^verbatim>\<open>f"{row}"\<close> produces it.\<close>

definition str_int :: "int \<Rightarrow> string" where
  "str_int i = (if i < 0 then CHR ''-'' # nat_digits (nat (- i)) else nat_digits (nat i))"

text \<open>\<^verbatim>\<open>int(q)\<close> for a float: truncation towards zero.\<close>

definition py_trunc :: "rat \<Rightarrow> int" where
  "py_trunc q = (if 0 \<le> q then \<lfloor>q\<rfloor> else \<lceil>q\<rceil>)"

text \<open>\<^verbatim>\<open>xs.index(x)\<close>: the first position of \<open>x\<close>, \<^verbatim>\<open>ValueError\<close> when absent.\<close>

fun list_index :: "'a list \<Rightarrow> 'a \<Rightarrow> nat option" where
  "list_index [] x = None"
| "list_index (y # ys) x = (if y = x then Some 0 else map_option Suc (list_index ys x))"


section \<open>Grid configuration and the coordinate converter\<close>

record GridSpec =
  grid_cols :: int
  grid_rows :: int
  screen_width :: int
  screen_height :: int

text \<open>The four entries of the configuration that \<^verbatim>\<open>GridConverter.__init__\<close> reads.\<close>

record GridConverter =
  cols :: int
  rows :: int
  cell_width :: rat
  cell_height :: rat

text \<open>
  \<^verbatim>\<open>Settings.__init__\<close>: \<^verbatim>\<open>cell_width = screen_width / grid_cols\<close> and
  \<^verbatim>\<open>cell_height = screen_height / grid_rows\<close> (true division).
\<close>

definition grid_config :: "GridSpec \<Rightarrow> error + GridConverter" where
  "grid_config g =
     (if grid_cols g = 0 \<or> grid_rows g = 0 then Inl ZeroDivisionError
      else Inr \<lparr> cols = grid_cols g, rows = grid_rows g,
                 cell_width = of_int (screen_width g) / of_int (grid_cols g),
                 cell_height = of_int (screen_height g) / of_int (grid_rows g) \<rparr>)"

text \<open>
  \<^verbatim>\<open>[chr(65 + i) for i in range(self.cols)]\<close>. A character is a byte here, so the list
  is the one of the program for up to 191 columns.
\<close>

definition col_letters :: "GridConverter \<Rightarrow> char list" where
  "col_letters gc = map (\<lambda>i. char_of (65 + i)) [0..<nat (cols gc)]"

definition single_grid_to_pixel :: "GridConverter \<Rightarrow> string \<Rightarrow> error + (int \<times> int)" where
  "single_grid_to_pixel gc grid_str0 =
     (let grid_str = py_upper (py_strip grid_str0) in
      if length grid_str < 2 then Inl (InvalidGridFormat grid_str)
      else
        let col_letter = hd grid_str; row_str = tl grid_str in
        if col_letter \<notin> set (col_letters gc) then
          (if col_letters gc = [] then Inl IndexError else Inl (InvalidColumn col_letter))
        else
          (case py_int row_str of
             None \<Rightarrow> Inl (InvalidRowNotNumber row_str)
           | Some row \<Rightarrow>
               if \<not> (1 \<le> row \<and> row \<le> rows gc) then Inl (InvalidRowRange row)
               else
                 (case list_index (col_letters gc) col_letter of
                    None \<Rightarrow> Inl ValueError
                  | Some col_index \<Rightarrow>
                      Inr (py_trunc ((of_nat col_index + 1 / 2) * cell_width gc),
                           py_trunc ((of_int row - 1 / 2) * cell_height gc)))))"

definition grid_to_pixel :: "GridConverter \<Rightarrow> string \<Rightarrow> error + (int \<times> int)" where
  "grid_to_pixel gc grid_str = single_grid_to_pixel gc (py_upper (py_strip grid_str))"


definition get_cell_bounds ::
  "GridConverter \<Rightarrow> string \<Rightarrow> error + (int \<times> int \<times> int \<times> int)" where
  "get_cell_bounds gc grid_str0 =
     (case py_upper (py_strip grid_str0) of
        [] \<Rightarrow> Inl IndexError
      | col_letter # row_str \<Rightarrow>
          (case py_int row_str of
             None \<Rightarrow> Inl ValueError
           | Some row \<Rightarrow>
               (case list_index (col_letters gc) col_letter of
                  None \<Rightarrow> Inl ValueError
                | Some col_index \<Rightarrow>
                    Inr (py_trunc (of_nat col_index * cell_width gc),
                         py_trunc ((of_int row - 1) * cell_height gc),
                         py_trunc ((of_nat col_index + 1) * cell_width gc),
                         py_trunc (of_int row * cell_height gc)))))"

text \<open>The configuration of the test suite: a 10 x 20 grid on a 1080 x 2400 screen.\<close>

definition test_spec :: GridSpec where
  "test_spec = \<lparr> grid_cols = 10, grid_rows = 20, screen_width = 1080, screen_height = 2400 \<rparr>"

definition test_config :: GridConverter where
  "test_config = \<lparr> cols = 10, rows = 20, cell_width = 108, cell_height = 120 \<rparr>"

text \<open>The value of a digit string read left to right, starting from \<open>acc\<close>.\<close>

definition digits_value :: "nat \<Rightarrow> string \<Rightarrow> nat" where
  "digits_value acc ds = foldl (\<lambda>a c. 10 * a + digit_val c) acc ds"

text \<open>The canonical form of a grid label, \<^verbatim>\<open>f"{col_letter}{row}"\<close>: column index \<open>i\<close> (from 0) and row \<open>r\<close>.\<close>

definition label :: "nat \<Rightarrow> int \<Rightarrow> string" where
  "label i r = char_of (65 + i) # str_int r"





section \<open>Dictionaries and dynamic values\<close>

type_synonym dict = "(string \<times> json) list"

text \<open>\<^verbatim>\<open>d.get(key, default)\<close>\<close>

definition dict_get :: "dict \<Rightarrow> string \<Rightarrow> json \<Rightarrow> json" where
  "dict_get d key dflt = (case map_of d key of None \<Rightarrow> dflt | Some v \<Rightarrow> v)"

text \<open>\<^verbatim>\<open>key in d\<close>\<close>

definition dict_has :: "dict \<Rightarrow> string \<Rightarrow> bool" where
  "dict_has d key = (map_of d key \<noteq> None)"

text \<open>\<^verbatim>\<open>d[key]\<close>\<close>

definition dict_item :: "dict \<Rightarrow> string \<Rightarrow> error + json" where
  "dict_item d key = (case map_of d key of None \<Rightarrow> Inl KeyError | Some v \<Rightarrow> Inr v)"

text \<open>\<^verbatim>\<open>d[key] = v\<close> on a copy of \<open>d\<close>\<close>

definition dict_set :: "dict \<Rightarrow> string \<Rightarrow> json \<Rightarrow> dict" where
  "dict_set d key v =
     (if dict_has d key then map (\<lambda>(k, old). if k = key then (k, v) else (k, old)) d
      else d @ [(key, v)])"

text \<open>Only \<^verbatim>\<open>None\<close>, booleans, integers and strings can be members of a \<^verbatim>\<open>set\<close>.\<close>

fun hashable :: "json \<Rightarrow> bool" where
  "hashable (JArr xs) = False"
| "hashable (JObj d) = False"
| "hashable v = True"

text \<open>\<^verbatim>\<open>a == b\<close> on hashable values: \<^verbatim>\<open>True == 1\<close> and \<^verbatim>\<open>False == 0\<close>.\<close>

fun py_eq :: "json \<Rightarrow> json \<Rightarrow> bool" where
  "py_eq (JBool b) (JInt n) = ((if b then 1 else 0) = n)"
| "py_eq (JInt n) (JBool b) = ((if b then 1 else 0) = n)"
| "py_eq a b = (a = b)"

text \<open>Truth value of an object in a condition.\<close>

fun truthy :: "json \<Rightarrow> bool" where
  "truthy JNull = False"
| "truthy (JBool b) = b"
| "truthy (JInt n) = (n \<noteq> 0)"
| "truthy (JStr s) = (s \<noteq> [])"
| "truthy (JArr xs) = (xs \<noteq> [])"
| "truthy (JObj d) = (d \<noteq> [])"

text \<open>\<^verbatim>\<open>len(set(xs)) == 1\<close>; building the set raises \<^verbatim>\<open>TypeError\<close> on an unhashable member.\<close>

definition set_is_singleton :: "json list \<Rightarrow> error + bool" where
  "set_is_singleton xs =
     (if \<not> list_all hashable xs then Inl TypeError
      else (case xs of [] \<Rightarrow> Inr False | x # rest \<Rightarrow> Inr (list_all (py_eq x) rest)))"

text \<open>
  The two Python built-ins that are parameters of the model: \<^verbatim>\<open>json.loads\<close> (\<open>None\<close> for
  \<^verbatim>\<open>JSONDecodeError\<close>) and the text \<^verbatim>\<open>str(v)\<close> that an f-string gives a value that is not a
  string. JSON numbers with a fraction or an exponent are not part of \<open>json\<close>.
\<close>

record builtins =
  json_loads :: "string \<Rightarrow> json option"
  py_repr :: "json \<Rightarrow> string"

text \<open>\<^verbatim>\<open>f"{v}"\<close>\<close>

definition fmt :: "builtins \<Rightarrow> json \<Rightarrow> string" where
  "fmt b v = (case v of JStr s \<Rightarrow> s | _ \<Rightarrow> py_repr b v)"

text \<open>\<^verbatim>\<open>xs[-n:]\<close>\<close>

definition last_n :: "nat \<Rightarrow> 'a list \<Rightarrow> 'a list" where
  "last_n n xs = drop (length xs - n) xs"

section \<open>Decision protocol: the request\<close>

text \<open>The UTF-8 bytes of the warning sign that opens both warnings.\<close>

definition warning_sign :: string where
  "warning_sign = map char_of [226, 154, 160, 239, 184, 143 :: nat]"

definition nl :: string where
  "nl = [CHR 0x0A]"

definition action_line :: "builtins \<Rightarrow> int \<Rightarrow> dict \<Rightarrow> string" where
  "action_line b i action =
     (let action_type = dict_get action ''action'' (JStr ''UNKNOWN'');
          explain = dict_get action ''explain'' (JStr '''')
      in if action_type = JStr ''CLICK'' then
           str_int i @ ''. CLICK '' @ fmt b (dict_get action ''grid'' (JStr '''')) @ '' - '' @
             fmt b explain @ nl
         else if action_type = JStr ''TYPE'' then
           str_int i @ ''. TYPE '' @ [CHR 0x22] @ fmt b (dict_get action ''value'' (JStr '''')) @
             [CHR 0x22] @ '' - '' @ fmt b explain @ nl
         else if action_type = JStr ''SCROLL'' then
           str_int i @ ''. SCROLL '' @ fmt b (dict_get action ''value'' (JStr '''')) @ '' - '' @
             fmt b explain @ nl
         else if action_type = JStr ''AWAKE'' then
           str_int i @ ''. AWAKE '' @ fmt b (dict_get action ''value'' (JStr '''')) @ '' - '' @
             fmt b explain @ nl
         else str_int i @ ''. '' @ fmt b action_type @ '' - '' @ fmt b explain @ nl)"

text \<open>The loop \<^verbatim>\<open>for i, action in enumerate(history[-5:], 1): message += ...\<close>\<close>

fun append_action_lines :: "builtins \<Rightarrow> int \<Rightarrow> dict list \<Rightarrow> string \<Rightarrow> string" where
  "append_action_lines b i [] message = message"
| "append_action_lines b i (action # rest) message =
     append_action_lines b (i + 1) rest (message @ action_line b i action)"

definition click_warning :: "builtins \<Rightarrow> json \<Rightarrow> string" where
  "click_warning b grid =
     warning_sign @ '' **Warning**: Last 2 CLICK actions targeted the same grid position '' @
       [CHR 0x27] @ fmt b grid @ [CHR 0x27] @ ''!'' @ nl @
     ''The UI likely changed after the first click. Analyze the current screenshot carefully.'' @ nl @
     ''Do NOT repeat the same click unless you'' @ [CHR 0x27] @ ''re certain it'' @ [CHR 0x27] @
       ''s needed.'' @ nl @ nl"

definition stuck_warning :: string where
  "stuck_warning =
     warning_sign @ '' **Warning**: Last 3 actions had same explanation. You might be stuck!'' @ nl @
     ''Consider: Click back button (top-left, grid A1-B3) or try different approach.'' @ nl @ nl"

text \<open>The check for repeated clicks on the same grid position.\<close>

definition repeated_click_check :: "builtins \<Rightarrow> dict list \<Rightarrow> error + string" where
  "repeated_click_check b history =
     (let recent_actions = last_n 2 history in
      if list_all (\<lambda>a. map_of a ''action'' = Some (JStr ''CLICK'')) recent_actions then
        (let recent_grids = map (\<lambda>a. dict_get a ''grid'' (JStr '''')) recent_actions in
         case set_is_singleton recent_grids of
           Inl e \<Rightarrow> Inl e
         | Inr one \<Rightarrow>
             if one \<and> truthy (hd recent_grids) then Inr (click_warning b (hd recent_grids))
             else Inr [])
      else Inr [])"

text \<open>The check for repeated explanations.\<close>

definition repeated_explain_check :: "dict list \<Rightarrow> error + string" where
  "repeated_explain_check history =
     (if length history \<ge> 3 then
        (let recent_explains = map (\<lambda>h. dict_get h ''explain'' (JStr '''')) (last_n 3 history) in
         case set_is_singleton recent_explains of
           Inl e \<Rightarrow> Inl e
         | Inr one \<Rightarrow> if one then Inr stuck_warning else Inr [])
      else Inr [])"

definition build_user_message :: "builtins \<Rightarrow> string \<Rightarrow> dict list \<Rightarrow> error + string" where
  "build_user_message b task history =
     (let message = ''**User Goal:** '' @ task @ nl @ nl in
      if history \<noteq> [] then
        (let message = message @ ''**Previous Actions:**'' @ nl;
             message = append_action_lines b 1 (last_n 5 history) message;
             message = message @ nl
         in if length history \<ge> 2 then
              (case repeated_click_check b history of
                 Inl e \<Rightarrow> Inl e
               | Inr w1 \<Rightarrow>
                   (case repeated_explain_check history of
                      Inl e \<Rightarrow> Inl e
                    | Inr w2 \<Rightarrow>
                        Inr (message @ w1 @ w2 @
                             ''**What is the next action?** (Output JSON only)'')))
            else Inr (message @ ''**What is the next action?** (Output JSON only)''))
      else Inr (message @ ''**What is the next action?** (Output JSON only)''))"

text \<open>A block of the \<^verbatim>\<open>content\<close> array of the request: an image or a text.\<close>

datatype content_block = ImageBlock json | TextBlock string

definition previous_caption :: string where
  "previous_caption =
     ''**Previous step screenshot** (showing the action that was just executed):'' @ nl @ nl"

text \<open>The first half of \<^verbatim>\<open>get_action\<close>: the content of the request.\<close>

definition build_content ::
  "builtins \<Rightarrow> string \<Rightarrow> string \<Rightarrow> dict list \<Rightarrow> error + content_block list" where
  "build_content b task grid_image_b64 history =
     (case build_user_message b task history of
        Inl e \<Rightarrow> Inl e
      | Inr user_message \<Rightarrow>
          (let content =
                 (if history \<noteq> [] then
                    (let last_action = last history in
                     if dict_has last_action ''marked_screenshot_b64'' then
                       [ImageBlock (dict_get last_action ''marked_screenshot_b64'' JNull),
                        TextBlock previous_caption]
                     else [])
                  else [])
           in Inr (content @ [ImageBlock (JStr grid_image_b64), TextBlock user_message])))"

section \<open>Decision protocol: the response\<close>

text \<open>A content block of the model's response.\<close>

record block =
  block_type :: string
  block_text :: string

text \<open>\<^verbatim>\<open>s.split("\n")\<close> and \<^verbatim>\<open>"\n".join(lines)\<close>\<close>

fun split_lines :: "string \<Rightarrow> string \<Rightarrow> string list" where
  "split_lines cur [] = [cur]"
| "split_lines cur (c # cs) =
     (if c = CHR 0x0A then cur # split_lines [] cs else split_lines (cur @ [c]) cs)"

fun join_lines :: "string list \<Rightarrow> string" where
  "join_lines [] = []"
| "join_lines [l] = l"
| "join_lines (l # m # ls) = l @ nl @ join_lines (m # ls)"

definition ACTION_TYPES :: "string list" where
  "ACTION_TYPES = [''CLICK'', ''TYPE'', ''SCROLL'', ''AWAKE'', ''COMPLETE'']"

text \<open>
  The text of the first block of type \<^verbatim>\<open>text\<close>, stripped, with a Markdown code fence
  removed (the first and the last line), as \<^verbatim>\<open>_parse_response\<close> prepares it for the JSON
  parser.
\<close>

definition response_text :: "block list \<Rightarrow> error + string" where
  "response_text content =
     (case List.find (\<lambda>blk. block_type blk = ''text'') content of
        None \<Rightarrow> Inl NoTextContent
      | Some blk \<Rightarrow>
          if block_text blk = [] then Inl NoTextContent
          else
            (let text_content = py_strip (block_text blk) in
             if prefix ''```'' text_content then
               Inr (join_lines (butlast (tl (split_lines [] text_content))))
             else Inr text_content))"

text \<open>\<^verbatim>\<open>"action" in action\<close> for whatever value the JSON parser returned.\<close>

definition has_key :: "json \<Rightarrow> string \<Rightarrow> error + bool" where
  "has_key action key =
     (case action of
        JObj d \<Rightarrow> Inr (dict_has d key)
      | JArr xs \<Rightarrow> Inr (JStr key \<in> set xs)
      | JStr s \<Rightarrow> Inr (sublist key s)
      | _ \<Rightarrow> Inl TypeError)"

text \<open>The structure checks of \<^verbatim>\<open>_parse_response\<close> on the parsed value.\<close>

definition validate_action :: "json \<Rightarrow> error + json" where
  "validate_action action =
     (case has_key action ''action'' of
        Inl e \<Rightarrow> Inl e
      | Inr False \<Rightarrow> Inl MissingActionField
      | Inr True \<Rightarrow>
          (case action of
             JObj d \<Rightarrow>
               (let action_type = dict_get d ''action'' JNull in
                if action_type \<notin> set (map JStr ACTION_TYPES) then
                  Inl (InvalidActionType action_type)
                else if action_type = JStr ''CLICK'' then
                  (if \<not> dict_has d ''grid'' then Inl (MissingField ''CLICK'' ''grid'')
                   else Inr action)
                else if action_type \<in> set [JStr ''TYPE'', JStr ''SCROLL'', JStr ''AWAKE''] then
                  (if \<not> dict_has d ''value'' then
                     Inl (MissingField (case action_type of JStr t \<Rightarrow> t | _ \<Rightarrow> []) ''value'')
                   else if action_type = JStr ''SCROLL'' \<and>
                           dict_get d ''value'' JNull \<notin> set [JStr ''up'', JStr ''down''] then
                     Inl (InvalidScrollValue (dict_get d ''value'' JNull))
                   else Inr action)
                else Inr action)
           | _ \<Rightarrow> Inl TypeError))"

definition parse_response :: "builtins \<Rightarrow> block list \<Rightarrow> error + json" where
  "parse_response b content =
     (case response_text content of
        Inl e \<Rightarrow> Inl e
      | Inr text_content \<Rightarrow>
          (case json_loads b text_content of
             None \<Rightarrow> Inl (InvalidJSON text_content)
           | Some action \<Rightarrow> validate_action action))"

text \<open>
  The retry loop of \<^verbatim>\<open>get_action\<close>. \<open>api attempt content\<close> is the call of the model at
  the given attempt: a transport error or the blocks of the response. \<open>remaining\<close> counts the
  iterations of \<^verbatim>\<open>range(max_retries)\<close> still to run; when the range is empty the function
  falls off its end and returns \<^verbatim>\<open>None\<close>.
\<close>

fun api_retry ::
  "builtins \<Rightarrow> (nat \<Rightarrow> content_block list \<Rightarrow> error + block list) \<Rightarrow> content_block list \<Rightarrow>
   nat \<Rightarrow> nat \<Rightarrow> error + json" where
  "api_retry b api content attempt 0 = Inr JNull"
| "api_retry b api content attempt (Suc remaining) =
     (case (case api attempt content of Inl e \<Rightarrow> Inl e | Inr response \<Rightarrow> parse_response b response) of
        Inr action \<Rightarrow> Inr action
      | Inl e \<Rightarrow>
          if 0 < remaining then api_retry b api content (Suc attempt) remaining
          else Inl (ApiCallFailed e))"

definition get_action ::
  "builtins \<Rightarrow> (nat \<Rightarrow> content_block list \<Rightarrow> error + block list) \<Rightarrow> string \<Rightarrow> string \<Rightarrow>
   dict list \<Rightarrow> nat \<Rightarrow> error + json" where
  "get_action b api task grid_image_b64 history max_retries =
     (case build_content b task grid_image_b64 history of
        Inl e \<Rightarrow> Inl e
      | Inr content \<Rightarrow> api_retry b api content 0 max_retries)"

section \<open>Executing an action\<close>

text \<open>
  One pass through the body of the retry loop of \<^verbatim>\<open>execute_action\<close>. \<open>adb_ok\<close> tells
  whether the device commands of this pass return; otherwise they raise.
\<close>

definition attempt_action :: "GridConverter \<Rightarrow> bool \<Rightarrow> json \<Rightarrow> dict \<Rightarrow> error + unit" where
  "attempt_action gc adb_ok action_type action =
     (if action_type = JStr ''CLICK'' then
        (case dict_item action ''grid'' of
           Inl e \<Rightarrow> Inl e
         | Inr (JStr grid) \<Rightarrow>
             (case grid_to_pixel gc grid of
                Inl e \<Rightarrow> Inl e
              | Inr xy \<Rightarrow> if adb_ok then Inr () else Inl DeviceError)
         | Inr _ \<Rightarrow> Inl AttributeError)
      else if action_type = JStr ''TYPE'' then
        (case dict_item action ''value'' of
           Inl e \<Rightarrow> Inl e
         | Inr (JStr v) \<Rightarrow> if adb_ok then Inr () else Inl DeviceError
         | Inr _ \<Rightarrow> Inl AttributeError)
      else if action_type = JStr ''SCROLL'' then
        (case dict_item action ''value'' of
           Inl e \<Rightarrow> Inl e
         | Inr direction \<Rightarrow> if adb_ok then Inr () else Inl DeviceError)
      else if action_type = JStr ''AWAKE'' then
        (case dict_item action ''value'' of
           Inl e \<Rightarrow> Inl e
         | Inr (JStr package) \<Rightarrow> if adb_ok then Inr () else Inl DeviceError
         | Inr _ \<Rightarrow> Inl TypeError)
      else Inr ())"

fun execute_retry ::
  "GridConverter \<Rightarrow> (nat \<Rightarrow> bool) \<Rightarrow> json \<Rightarrow> dict \<Rightarrow> nat \<Rightarrow> nat \<Rightarrow> error + unit" where
  "execute_retry gc adb action_type action attempt 0 = Inr ()"
| "execute_retry gc adb action_type action attempt (Suc remaining) =
     (case attempt_action gc (adb attempt) action_type action of
        Inr u \<Rightarrow> Inr ()
      | Inl e \<Rightarrow>
          if 0 < remaining then execute_retry gc adb action_type action (Suc attempt) remaining
          else Inl e)"

definition execute_action ::
  "GridConverter \<Rightarrow> (nat \<Rightarrow> bool) \<Rightarrow> json \<Rightarrow> bool \<Rightarrow> error + unit" where
  "execute_action gc adb action retry_on_failure =
     (case action of
        JObj d \<Rightarrow>
          (case dict_item d ''action'' of
             Inl e \<Rightarrow> Inl e
           | Inr action_type \<Rightarrow>
               execute_retry gc adb action_type d 0 (if retry_on_failure then 2 else 1))
      | _ \<Rightarrow> Inl TypeError)"

text \<open>\<^verbatim>\<open>_print_step_summary\<close> converts the grid of a \<^verbatim>\<open>CLICK\<close> once more.\<close>

definition print_step_summary :: "GridConverter \<Rightarrow> dict \<Rightarrow> error + unit" where
  "print_step_summary gc action =
     (case dict_item action ''action'' of
        Inl e \<Rightarrow> Inl e
      | Inr action_type \<Rightarrow>
          if action_type = JStr ''CLICK'' then
            (case dict_get action ''grid'' (JStr '''') of
               JStr grid \<Rightarrow> (case grid_to_pixel gc grid of Inl e \<Rightarrow> Inl e | Inr xy \<Rightarrow> Inr ())
             | _ \<Rightarrow> Inl AttributeError)
          else Inr ())"

section \<open>The step loop\<close>

text \<open>
  Everything outside the program, by step number (from 1) and attempt number (from 0):
  whether the screenshot can be captured, the encoded annotated screenshot, the model's
  answer to a request, whether the device commands return, the encoded marked screenshot
  of an action, and whether the user interrupts the step before its action is recorded or
  during the delay after it. The logger, the clock and the files of saved images are left
  out: they are taken not to fail, and the elapsed time and the cost in the summary are not
  modelled.
\<close>

record world =
  capture_ok :: "nat \<Rightarrow> bool"
  grid_image :: "nat \<Rightarrow> string"
  api :: "nat \<Rightarrow> nat \<Rightarrow> content_block list \<Rightarrow> error + block list"
  adb :: "nat \<Rightarrow> nat \<Rightarrow> bool"
  marked_image :: "nat \<Rightarrow> dict \<Rightarrow> string"
  interrupt_before :: "nat \<Rightarrow> bool"
  interrupt_after :: "nat \<Rightarrow> bool"

text \<open>The entries of \<^verbatim>\<open>AGENT_CONFIG\<close> that \<^verbatim>\<open>run_task\<close> reads.\<close>

record agent_config =
  config_max_steps :: int
  config_save_debug_images :: bool

text \<open>
  The state of a run: the two fields of the agent that the loop updates, and the requests
  handed to the model so far.
\<close>

record run_state =
  history :: "dict list"
  step_count :: int
  requests :: "content_block list list"

text \<open>How the loop was left: by \<^verbatim>\<open>break\<close>, through its \<^verbatim>\<open>else\<close>, or by an exception.\<close>

datatype outcome = Completed | MaxStepsReached | Interrupted | Failed error

text \<open>
  The marked screenshot of a step: made only when screenshots are saved and the action is
  \<^verbatim>\<open>CLICK\<close>, \<^verbatim>\<open>TYPE\<close> or \<^verbatim>\<open>AWAKE\<close>.
\<close>

definition marked_image_b64 :: "bool \<Rightarrow> world \<Rightarrow> nat \<Rightarrow> dict \<Rightarrow> string option" where
  "marked_image_b64 save_screenshots w step action =
     (if save_screenshots \<and>
         dict_get action ''action'' JNull \<in> set [JStr ''CLICK'', JStr ''TYPE'', JStr ''AWAKE'']
      then Some (marked_image w step action) else None)"

text \<open>\<^verbatim>\<open>history_entry = action.copy()\<close>, with the marked screenshot when there is one.\<close>

definition history_entry :: "bool \<Rightarrow> world \<Rightarrow> nat \<Rightarrow> dict \<Rightarrow> dict" where
  "history_entry save_screenshots w step action =
     (case marked_image_b64 save_screenshots w step action of
        None \<Rightarrow> action
      | Some m \<Rightarrow> if m \<noteq> [] then dict_set action ''marked_screenshot_b64'' (JStr m) else action)"

text \<open>The request that \<^verbatim>\<open>get_action\<close> hands to the model, when it gets that far.\<close>

definition sent_request ::
  "builtins \<Rightarrow> string \<Rightarrow> string \<Rightarrow> dict list \<Rightarrow> content_block list list" where
  "sent_request b task grid_image_b64 hist =
     (case build_content b task grid_image_b64 hist of Inl e \<Rightarrow> [] | Inr content \<Rightarrow> [content])"

text \<open>
  The loop \<^verbatim>\<open>for step in range(1, max_steps + 1)\<close>; \<open>remaining\<close> counts the steps still
  in the range.
\<close>

fun run_loop ::
  "builtins \<Rightarrow> GridConverter \<Rightarrow> world \<Rightarrow> string \<Rightarrow> bool \<Rightarrow> nat \<Rightarrow> nat \<Rightarrow> run_state \<Rightarrow>
   run_state \<times> outcome" where
  "run_loop b gc w task save_screenshots step 0 st = (st, MaxStepsReached)"
| "run_loop b gc w task save_screenshots step (Suc remaining) st =
     (let st = st\<lparr>step_count := int step\<rparr> in
      if interrupt_before w step then (st, Interrupted)
      else if \<not> capture_ok w step then (st, Failed CaptureFailed)
      else
        (let st = st\<lparr>requests := requests st @
                     sent_request b task (grid_image w step) (history st)\<rparr>
         in case get_action b (api w step) task (grid_image w step) (history st) 3 of
              Inl e \<Rightarrow> (st, Failed e)
            | Inr action \<Rightarrow>
                (case execute_action gc (adb w step) action True of
                   Inl e \<Rightarrow> (st, Failed e)
                 | Inr u \<Rightarrow>
                     (case action of
                        JObj d \<Rightarrow>
                          (case print_step_summary gc d of
                             Inl e \<Rightarrow> (st, Failed e)
                           | Inr u \<Rightarrow>
                               (let st = st\<lparr>history := history st @
                                           [history_entry save_screenshots w step d]\<rparr>
                                in if dict_item d ''action'' = Inr (JStr ''COMPLETE'')
                                   then (st, Completed)
                                   else if interrupt_after w step then (st, Interrupted)
                                   else run_loop b gc w task save_screenshots (Suc step)
                                          remaining st))
                      | _ \<Rightarrow> (st, Failed TypeError)))))"

text \<open>The run summary, with the way the loop was left and the requests that were made.\<close>

record run_result =
  success :: bool
  steps :: int
  result_history :: "dict list"
  result_outcome :: outcome
  result_requests :: "content_block list list"

text \<open>\<^verbatim>\<open>max_steps or AGENT_CONFIG["max_steps"]\<close>\<close>

definition effective_max_steps :: "agent_config \<Rightarrow> int option \<Rightarrow> int" where
  "effective_max_steps cfg max_steps =
     (case max_steps of
        None \<Rightarrow> config_max_steps cfg
      | Some n \<Rightarrow> if n = 0 then config_max_steps cfg else n)"

definition run_task ::
  "builtins \<Rightarrow> GridConverter \<Rightarrow> agent_config \<Rightarrow> world \<Rightarrow> string \<Rightarrow> int option \<Rightarrow> bool option \<Rightarrow>
   run_result" where
  "run_task b gc cfg w task max_steps save_screenshots =
     (let max_steps = effective_max_steps cfg max_steps;
          save_screenshots =
            (case save_screenshots of None \<Rightarrow> config_save_debug_images cfg | Some s \<Rightarrow> s);
          (st, out) = run_loop b gc w task save_screenshots 1 (nat max_steps)
                        \<lparr>history = [], step_count = 0, requests = []\<rparr>
      in \<lparr> success = (history st \<noteq> [] \<and>
                      dict_item (last (history st)) ''action'' = Inr (JStr ''COMPLETE'')),
           steps = step_count st,
           result_history = history st,
           result_outcome = out,
           result_requests = requests st \<rparr>)"

section \<open>Example data\<close>

text \<open>A scripted model for examples: at step \<open>n\<close> it answers with the \<open>n\<close>-th text.\<close>

definition scripted_world :: "string list \<Rightarrow> world" where
  "scripted_world answers =
     \<lparr> capture_ok = (\<lambda>step. True),
       grid_image = (\<lambda>step. ''screen'' @ str_int (int step)),
       api = (\<lambda>step attempt content.
                if step \<le> length answers
                then Inr [\<lparr>block_type = ''text'', block_text = answers ! (step - 1)\<rparr>]
                else Inl ApiError),
       adb = (\<lambda>step attempt. True),
       marked_image = (\<lambda>step action. ''marked'' @ str_int (int step)),
       interrupt_before = (\<lambda>step. False),
       interrupt_after = (\<lambda>step. False) \<rparr>"

definition click_E5 :: dict where
  "click_E5 = [(''action'', JStr ''CLICK''), (''grid'', JStr ''E5''), (''explain'', JStr ''open'')]"

definition scroll_up :: dict where
  "scroll_up = [(''action'', JStr ''SCROLL''), (''value'', JStr ''up'')]"

definition scroll_left :: dict where
  "scroll_left = [(''action'', JStr ''SCROLL''), (''value'', JStr ''left'')]"

definition complete :: dict where
  "complete = [(''action'', JStr ''COMPLETE'')]"

definition click_without_grid :: dict where
  "click_without_grid = [(''action'', JStr ''CLICK''), (''explain'', JStr ''open'')]"

definition click_empty_grid :: dict where
  "click_empty_grid = [(''action'', JStr ''CLICK''), (''grid'', JStr '''')]"



text \<open>A stand-in for the JSON parser that knows six texts.\<close>

definition toy_builtins :: builtins where
  "toy_builtins =
     \<lparr> json_loads = (\<lambda>s. if s = ''click'' then Some (JObj click_E5)
                          else if s = ''scroll'' then Some (JObj scroll_up)
                          else if s = ''left'' then Some (JObj scroll_left)
                          else if s = ''done'' then Some (JObj complete)
                          else if s = ''nogrid'' then Some (JObj click_without_grid)
                          else if s = ''empty'' then Some (JObj click_empty_grid)
                          else None),
       py_repr = (\<lambda>v. ''?'') \<rparr>"

text \<open>A stand-in for the JSON parser that reads an empty list and an empty object.\<close>

definition toy_parser :: builtins where
  "toy_parser =
     \<lparr> json_loads = (\<lambda>s. if s = ''[]'' then Some (JArr [])
                          else if s = ''{}'' then Some (JObj [])
                          else None),
       py_repr = (\<lambda>v. ''?'') \<rparr>"

definition toy_config :: agent_config where
  "toy_config = \<lparr> config_max_steps = 20, config_save_debug_images = True \<rparr>"

section \<open>Notions for the statements about a run\<close>

text \<open>The state after a step whose action \<open>d\<close> was executed and recorded.\<close>

definition recorded :: "builtins \<Rightarrow> world \<Rightarrow> string \<Rightarrow> bool \<Rightarrow> nat \<Rightarrow> dict \<Rightarrow> run_state \<Rightarrow> run_state" where
  "recorded b w task save_screenshots step d st =
     st\<lparr>step_count := int step,
        requests := requests st @ sent_request b task (grid_image w step) (history st),
        history := history st @ [history_entry save_screenshots w step d]\<rparr>"

text \<open>The entry is not a \<^verbatim>\<open>COMPLETE\<close> action.\<close>

definition not_complete :: "dict \<Rightarrow> bool" where
  "not_complete e = (dict_item e ''action'' \<noteq> Inr (JStr ''COMPLETE''))"





text \<open>Two runs of the scripted model.\<close>

definition three_step_run :: run_result where
  "three_step_run =
     run_task toy_builtins test_config toy_config (scripted_world [''click'', ''scroll'', ''done''])
       ''goal'' (Some 5) None"

definition click_only_run :: run_result where
  "click_only_run =
     run_task toy_builtins test_config toy_config
       (scripted_world [''click'', ''click'', ''click'', ''click'']) ''goal'' (Some 3) None"

section \<open>Decimal strings and labels\<close>

lemma of_char_digit_char: "d < 10 \<Longrightarrow> (of_char (digit_char d) :: nat) = 48 + d"
  by (simp add: digit_char_def)

lemma is_digit_digit_char: "d < 10 \<Longrightarrow> is_digit (digit_char d)"
  by (simp add: is_digit_def of_char_digit_char)

lemma digit_val_digit_char: "d < 10 \<Longrightarrow> digit_val (digit_char d) = d"
  by (simp add: digit_val_def of_char_digit_char)

lemma nat_digits_is_digit: "c \<in> set (nat_digits n) \<Longrightarrow> is_digit c"
proof (induction n arbitrary: c rule: nat_digits.induct)
  case (1 n)
  show ?case
  proof (cases "n < 10")
    case True
    with "1.prems" show ?thesis
      by (simp add: nat_digits.simps [of n] is_digit_digit_char)
  next
    case False
    with "1.prems" "1.IH" show ?thesis
      by (auto simp: nat_digits.simps [of n] is_digit_digit_char)
  qed
qed

lemma nat_digits_nonempty: "nat_digits n \<noteq> []"
  by (subst nat_digits.simps) simp

lemma parse_digits_all_digits:
  "\<forall>c \<in> set ds. is_digit c \<Longrightarrow> parse_digits acc ds = Some (digits_value acc ds)"
  by (induction ds arbitrary: acc) (simp_all add: digits_value_def)

lemma digits_value_nat_digits: "digits_value 0 (nat_digits n) = n"
proof (induction n rule: nat_digits.induct)
  case (1 n)
  show ?case
  proof (cases "n < 10")
    case True
    then show ?thesis
      by (simp add: nat_digits.simps [of n] digits_value_def digit_val_digit_char)
  next
    case False
    with "1.IH" show ?thesis
      by (simp add: nat_digits.simps [of n] digits_value_def digit_val_digit_char)
  qed
qed

lemma parse_unsigned_nat_digits: "parse_unsigned (nat_digits n) = Some n"
proof (cases "nat_digits n")
  case Nil
  then show ?thesis by (simp add: nat_digits_nonempty)
next
  case (Cons c cs)
  have dig: "\<forall>d \<in> set (c # cs). is_digit d"
    using nat_digits_is_digit [of _ n] Cons by auto
  have "digits_value 0 (c # cs) = n"
    using digits_value_nat_digits [of n] Cons by simp
  then have "digits_value (digit_val c) cs = n"
    by (simp add: digits_value_def)
  with dig Cons show ?thesis
    by (simp add: parse_unsigned_def parse_digits_all_digits)
qed

lemma py_strip_no_space: "\<forall>c \<in> set s. \<not> py_isspace c \<Longrightarrow> py_strip s = s"
proof -
  assume a: "\<forall>c \<in> set s. \<not> py_isspace c"
  have "dropWhile py_isspace s = s"
    using a by (cases s) auto
  moreover have "\<forall>c \<in> set (rev s). \<not> py_isspace c"
    using a by simp
  then have "dropWhile py_isspace (rev s) = rev s"
    by (cases "rev s") simp_all
  ultimately show ?thesis by (simp add: py_strip_def)
qed

lemma is_digit_not_space: "is_digit c \<Longrightarrow> \<not> py_isspace c"
  by (simp add: is_digit_def py_isspace_def Let_def)

lemma is_digit_upper: "is_digit c \<Longrightarrow> upper_char c = c"
  by (simp add: is_digit_def upper_char_def Let_def)

lemma is_digit_not_sign: "is_digit c \<Longrightarrow> c \<noteq> CHR ''-'' \<and> c \<noteq> CHR ''+''"
  by (auto simp: is_digit_def)

lemma py_int_str_int: "py_int (str_int r) = Some r"
proof (cases "r < 0")
  case True
  have ns: "\<forall>c \<in> set (CHR ''-'' # nat_digits (nat (- r))). \<not> py_isspace c"
    using nat_digits_is_digit is_digit_not_space by (auto simp: py_isspace_def)
  show ?thesis
    using True by (simp add: py_int_def str_int_def py_strip_no_space [OF ns] parse_unsigned_nat_digits)
next
  case False
  obtain c cs where cs: "nat_digits (nat r) = c # cs"
    using nat_digits_nonempty [of "nat r"] by (cases "nat_digits (nat r)") auto
  have dig: "is_digit c"
    using nat_digits_is_digit [of c "nat r"] cs by simp
  have ns: "\<forall>c \<in> set (nat_digits (nat r)). \<not> py_isspace c"
    using nat_digits_is_digit is_digit_not_space by auto
  have "parse_unsigned (c # cs) = Some (nat r)"
    using parse_unsigned_nat_digits [of "nat r"] cs by simp
  moreover have "py_strip (c # cs) = c # cs"
    using py_strip_no_space [OF ns] cs by simp
  ultimately show ?thesis
    using False is_digit_not_sign [OF dig] cs
    by (simp add: py_int_def str_int_def)
qed

lemma list_index_nth_distinct:
  "distinct xs \<Longrightarrow> i < length xs \<Longrightarrow> list_index xs (xs ! i) = Some i"
proof (induction xs arbitrary: i)
  case Nil
  then show ?case by simp
next
  case (Cons y ys)
  show ?case
  proof (cases i)
    case 0
    then show ?thesis by simp
  next
    case (Suc k)
    with Cons.prems have "ys ! k \<in> set ys" "y \<notin> set ys" by simp_all
    then have "y \<noteq> ys ! k" by auto
    with Suc Cons show ?thesis by simp
  qed
qed

lemma list_index_None: "x \<notin> set xs \<Longrightarrow> list_index xs x = None"
  by (induction xs) auto

lemma length_col_letters: "length (col_letters gc) = nat (cols gc)"
  by (simp add: col_letters_def)

lemma nth_col_letters: "i < nat (cols gc) \<Longrightarrow> col_letters gc ! i = char_of (65 + i)"
  by (simp add: col_letters_def)

lemma distinct_col_letters: "cols gc \<le> 26 \<Longrightarrow> distinct (col_letters gc)"
proof -
  assume le: "cols gc \<le> 26"
  have "inj_on (\<lambda>i::nat. (char_of (65 + i) :: char)) {0..<nat (cols gc)}"
  proof (rule inj_onI)
    fix i j :: nat
    assume i: "i \<in> {0..<nat (cols gc)}" and j: "j \<in> {0..<nat (cols gc)}"
      and eq: "(char_of (65 + i) :: char) = char_of (65 + j)"
    from eq have "(of_char (char_of (65 + i) :: char) :: nat) = of_char (char_of (65 + j) :: char)"
      by simp
    with i j le show "i = j" by simp
  qed
  then show ?thesis
    by (simp add: col_letters_def distinct_map)
qed

lemma list_index_col_letters:
  "cols gc \<le> 26 \<Longrightarrow> i < nat (cols gc) \<Longrightarrow> list_index (col_letters gc) (char_of (65 + i)) = Some i"
  using list_index_nth_distinct [OF distinct_col_letters, of gc i]
  by (simp add: length_col_letters nth_col_letters)

lemma col_letter_mem:
  "i < nat (cols gc) \<Longrightarrow> char_of (65 + i) \<in> set (col_letters gc)"
  by (simp add: col_letters_def)

lemma str_int_chars: "c \<in> set (str_int r) \<Longrightarrow> is_digit c \<or> c = CHR ''-''"
  by (auto simp: str_int_def dest: nat_digits_is_digit split: if_splits)

lemma str_int_nonempty: "str_int r \<noteq> []"
  by (simp add: str_int_def nat_digits_nonempty)

lemma letter_plain:
  "(i::nat) < 26 \<Longrightarrow> \<not> py_isspace (char_of (65 + i)) \<and> upper_char (char_of (65 + i)) = char_of (65 + i)"
  by (simp add: py_isspace_def upper_char_def Let_def)

lemma minus_plain: "\<not> py_isspace CHR ''-'' \<and> upper_char CHR ''-'' = CHR ''-''"
  by (simp add: py_isspace_def upper_char_def)

lemma str_int_plain: "c \<in> set (str_int r) \<Longrightarrow> \<not> py_isspace c \<and> upper_char c = c"
  using str_int_chars [of c r] is_digit_not_space [of c] is_digit_upper [of c] minus_plain
  by blast

lemma hd_label: "hd (label i r) = char_of (65 + i)"
  by (simp add: label_def)

lemma tl_label: "tl (label i r) = str_int r"
  by (simp add: label_def)

lemma length_label: "\<not> length (label i r) < 2"
  using str_int_nonempty [of r] by (cases "str_int r") (simp_all add: label_def)

lemma label_normal: "i < 26 \<Longrightarrow> py_upper (py_strip (label i r)) = label i r"
proof -
  assume i: "i < 26"
  have ns: "\<forall>c \<in> set (label i r). \<not> py_isspace c"
    using letter_plain [OF i] str_int_plain [of _ r]
    by (auto simp: label_def)
  have "\<forall>c \<in> set (label i r). upper_char c = c"
    using letter_plain [OF i] str_int_plain [of _ r]
    by (auto simp: label_def)
  then have "py_upper (label i r) = label i r"
    by (simp add: py_upper_def map_idI)
  with ns show ?thesis by (simp add: py_strip_no_space)
qed


lemma single_grid_to_pixel_label:
  assumes "cols gc \<le> 26" "i < nat (cols gc)" "1 \<le> r" "r \<le> rows gc"
  shows "single_grid_to_pixel gc (label i r) =
           Inr (py_trunc ((of_nat i + 1 / 2) * cell_width gc),
                py_trunc ((of_int r - 1 / 2) * cell_height gc))"
proof -
  from assms have i26: "i < 26" by simp
  show ?thesis
    using assms
    by (simp add: single_grid_to_pixel_def label_normal [OF i26] Let_def length_label
        hd_label tl_label col_letter_mem py_int_str_int list_index_col_letters)
qed

lemma grid_to_pixel_label:
  assumes "cols gc \<le> 26" "i < nat (cols gc)" "1 \<le> r" "r \<le> rows gc"
  shows "grid_to_pixel gc (label i r) =
           Inr (py_trunc ((of_nat i + 1 / 2) * cell_width gc),
                py_trunc ((of_int r - 1 / 2) * cell_height gc))"
proof -
  from assms have i26: "i < 26" by simp
  show ?thesis
    by (simp add: grid_to_pixel_def label_normal [OF i26] single_grid_to_pixel_label [OF assms])
qed




















text \<open>
  What \<^verbatim>\<open>get_cell_bounds\<close> does reject: an empty label, a row that is not a number and a
  column letter outside the grid.
\<close>

lemma get_cell_bounds_rejects:
  "py_upper (py_strip s) = [] \<Longrightarrow> get_cell_bounds gc s = Inl IndexError"
  "py_upper (py_strip s) = c # row_str \<Longrightarrow> py_int row_str = None \<Longrightarrow>
     get_cell_bounds gc s = Inl ValueError"
  "py_upper (py_strip s) = c # row_str \<Longrightarrow> c \<notin> set (col_letters gc) \<Longrightarrow>
     isl (get_cell_bounds gc s)"
  by (simp_all add: get_cell_bounds_def list_index_None split: option.splits)

text \<open>
  Claim C2: \<^verbatim>\<open>get_cell_bounds\<close> is to reject the labels \<^verbatim>\<open>grid_to_pixel\<close> rejects. It does
  not check the row range: rows 21 and 0 of the 10 x 20 grid get rectangles outside the
  screen.
\<close>

theorem get_cell_bounds_skips_row_check:
  "grid_to_pixel test_config ''A21'' = Inl (InvalidRowRange 21) \<and>
   get_cell_bounds test_config ''A21'' = Inr (0, 2400, 108, 2520) \<and>
   grid_to_pixel test_config ''A0'' = Inl (InvalidRowRange 0) \<and>
   get_cell_bounds test_config ''A0'' = Inr (0, - 120, 108, 0)"
  by code_simp

text \<open>
  Claim C3: on the 10 x 20 grid of a 1080 x 2400 screen \<^verbatim>\<open>grid_to_pixel\<close> returns the
  truncated cell centre; \<open>A1\<close>, \<open>E5\<close> and \<open>J20\<close> map to \<open>(54, 60)\<close>, \<open>(486, 540)\<close> and
  \<open>(1026, 2340)\<close>.
\<close>

theorem grid_to_pixel_centers:
  "grid_config test_spec = Inr test_config \<and>
   grid_to_pixel test_config ''A1'' = Inr (54, 60) \<and>
   grid_to_pixel test_config ''E5'' = Inr (486, 540) \<and>
   grid_to_pixel test_config ''J20'' = Inr (1026, 2340) \<and>
   (\<forall>i r. i < 10 \<and> 1 \<le> r \<and> r \<le> 20 \<longrightarrow>
      grid_to_pixel test_config (label i r) =
        Inr (py_trunc ((of_nat i + 1 / 2) * 108), py_trunc ((of_int r - 1 / 2) * 120)))"
proof -
  have a: "grid_config test_spec = Inr test_config" by code_simp
  have b: "grid_to_pixel test_config ''A1'' = Inr (54, 60)" by code_simp
  have c: "grid_to_pixel test_config ''E5'' = Inr (486, 540)" by code_simp
  have d: "grid_to_pixel test_config ''J20'' = Inr (1026, 2340)" by code_simp
  have e: "grid_to_pixel test_config (label i r) =
        Inr (py_trunc ((of_nat i + 1 / 2) * 108), py_trunc ((of_int r - 1 / 2) * 120))"
    if "i < 10" "1 \<le> r" "r \<le> 20" for i r
    using grid_to_pixel_label [of test_config i r] that by (simp add: test_config_def)
  from a b c d e show ?thesis by blast
qed

theorem grid_to_pixel_centers_witness:
  "label 5 10 = ''F10'' \<and> grid_to_pixel test_config ''F10'' = Inr (594, 1140)"
proof -
  have l: "label 5 10 = ''F10''" by code_simp
  have "grid_to_pixel test_config (label 5 10) =
        Inr (py_trunc ((of_nat 5 + 1 / 2) * 108), py_trunc ((of_int 10 - 1 / 2) * 120))"
    using grid_to_pixel_centers by simp
  moreover have "py_trunc ((of_nat 5 + 1 / 2) * 108) = 594" by code_simp
  moreover have "py_trunc ((of_int 10 - 1 / 2) * 120) = 1140" by code_simp
  ultimately show ?thesis using l by simp
qed

section \<open>Tiling and clamping\<close>








section \<open>Response validation\<close>


lemma validate_missing_action:
  "map_of d ''action'' = None \<Longrightarrow> validate_action (JObj d) = Inl MissingActionField"
  by (simp add: validate_action_def has_key_def dict_has_def)

lemma validate_unknown:
  "map_of d ''action'' = Some t \<Longrightarrow> t \<notin> set (map JStr ACTION_TYPES) \<Longrightarrow>
   validate_action (JObj d) = Inl (InvalidActionType t)"
  by (simp add: validate_action_def has_key_def dict_has_def dict_get_def)

lemma validate_click:
  "map_of d ''action'' = Some (JStr ''CLICK'') \<Longrightarrow>
   validate_action (JObj d) =
     (if dict_has d ''grid'' then Inr (JObj d) else Inl (MissingField ''CLICK'' ''grid''))"
  by (simp add: validate_action_def has_key_def dict_has_def dict_get_def ACTION_TYPES_def)

lemma validate_type:
  "map_of d ''action'' = Some (JStr ''TYPE'') \<Longrightarrow>
   validate_action (JObj d) =
     (if dict_has d ''value'' then Inr (JObj d) else Inl (MissingField ''TYPE'' ''value''))"
  by (auto simp: validate_action_def has_key_def dict_has_def dict_get_def ACTION_TYPES_def Let_def)

lemma validate_awake:
  "map_of d ''action'' = Some (JStr ''AWAKE'') \<Longrightarrow>
   validate_action (JObj d) =
     (if dict_has d ''value'' then Inr (JObj d) else Inl (MissingField ''AWAKE'' ''value''))"
  by (auto simp: validate_action_def has_key_def dict_has_def dict_get_def ACTION_TYPES_def Let_def)

lemma validate_scroll:
  "map_of d ''action'' = Some (JStr ''SCROLL'') \<Longrightarrow>
   validate_action (JObj d) =
     (case map_of d ''value'' of
        None \<Rightarrow> Inl (MissingField ''SCROLL'' ''value'')
      | Some v \<Rightarrow> if v = JStr ''up'' \<or> v = JStr ''down'' then Inr (JObj d)
                  else Inl (InvalidScrollValue v))"
  by (auto simp: validate_action_def has_key_def dict_has_def dict_get_def ACTION_TYPES_def
      split: option.splits)

lemma validate_complete:
  "map_of d ''action'' = Some (JStr ''COMPLETE'') \<Longrightarrow> validate_action (JObj d) = Inr (JObj d)"
  by (simp add: validate_action_def has_key_def dict_has_def dict_get_def ACTION_TYPES_def)

lemma validate_array:
  "validate_action (JArr xs) =
     (if JStr ''action'' \<in> set xs then Inl TypeError else Inl MissingActionField)"
  by (simp add: validate_action_def has_key_def)

lemma validate_string:
  "validate_action (JStr s) =
     (if sublist ''action'' s then Inl TypeError else Inl MissingActionField)"
  by (simp add: validate_action_def has_key_def)

lemma validate_scalar:
  "validate_action JNull = Inl TypeError"
  "validate_action (JBool v) = Inl TypeError"
  "validate_action (JInt n) = Inl TypeError"
  by (simp_all add: validate_action_def has_key_def)

lemma parse_response_text:
  "response_text content = Inr t \<Longrightarrow>
   parse_response b content =
     (case json_loads b t of None \<Rightarrow> Inl (InvalidJSON t) | Some j \<Rightarrow> validate_action j)"
  by (simp add: parse_response_def)

lemma response_text_plain:
  "s \<noteq> [] \<Longrightarrow> \<forall>c \<in> set s. \<not> py_isspace c \<Longrightarrow> \<not> prefix ''```'' s \<Longrightarrow>
   response_text [\<lparr>block_type = ''text'', block_text = s\<rparr>] = Inr s"
  by (simp add: response_text_def py_strip_no_space)

text \<open>
  Claim C4 as stated gives a response that does not parse as a structured object an error
  of its own. A JSON list is rejected with the error of an object that has no action tag,
  and not with the error of a text that is not JSON.
\<close>

theorem array_rejected_like_object_without_action:
  "parse_response toy_parser [\<lparr>block_type = ''text'', block_text = ''[]''\<rparr>] =
     Inl MissingActionField \<and>
   parse_response toy_parser [\<lparr>block_type = ''text'', block_text = ''{}''\<rparr>] =
     Inl MissingActionField \<and>
   parse_response toy_parser [\<lparr>block_type = ''text'', block_text = ''garbage''\<rparr>] =
     Inl (InvalidJSON ''garbage'')"
  by code_simp

text \<open>
  Claim C4, amended: what \<^verbatim>\<open>_parse_response\<close> does with the text of a response. A text
  that the JSON parser rejects is rejected as invalid JSON. A JSON list or string is
  rejected as lacking the action field when it does not contain \<^verbatim>\<open>"action"\<close>, and with a
  \<^verbatim>\<open>TypeError\<close> when it does; \<^verbatim>\<open>null\<close>, a boolean and an integer raise \<^verbatim>\<open>TypeError\<close>. An object
  without action tag, with an unknown tag, a \<^verbatim>\<open>CLICK\<close> without \<^verbatim>\<open>grid\<close>, a \<^verbatim>\<open>TYPE\<close>,
  \<^verbatim>\<open>SCROLL\<close> or \<^verbatim>\<open>AWAKE\<close> without \<^verbatim>\<open>value\<close>, and a \<^verbatim>\<open>SCROLL\<close> whose value is neither \<^verbatim>\<open>up\<close>
  nor \<^verbatim>\<open>down\<close> are each rejected with an error of their own; every other object with a
  recognised tag is returned as it is.
\<close>

theorem response_validation:
  assumes rt: "response_text content = Inr t"
  shows "(json_loads b t = None \<longrightarrow> parse_response b content = Inl (InvalidJSON t)) \<and>
         (\<forall>xs. json_loads b t = Some (JArr xs) \<longrightarrow>
            parse_response b content =
              (if JStr ''action'' \<in> set xs then Inl TypeError else Inl MissingActionField)) \<and>
         (\<forall>s. json_loads b t = Some (JStr s) \<longrightarrow>
            parse_response b content =
              (if sublist ''action'' s then Inl TypeError else Inl MissingActionField)) \<and>
         (\<forall>j. json_loads b t = Some j \<and> (j = JNull \<or> (\<exists>v. j = JBool v) \<or> (\<exists>n. j = JInt n)) \<longrightarrow>
            parse_response b content = Inl TypeError) \<and>
         (\<forall>d. json_loads b t = Some (JObj d) \<longrightarrow>
            (case map_of d ''action'' of
               None \<Rightarrow> parse_response b content = Inl MissingActionField
             | Some tag \<Rightarrow>
                 (tag \<notin> set (map JStr [''CLICK'', ''TYPE'', ''SCROLL'', ''AWAKE'', ''COMPLETE'']) \<longrightarrow>
                    parse_response b content = Inl (InvalidActionType tag)) \<and>
                 (tag = JStr ''CLICK'' \<longrightarrow>
                    parse_response b content =
                      (if dict_has d ''grid'' then Inr (JObj d)
                       else Inl (MissingField ''CLICK'' ''grid''))) \<and>
                 (tag = JStr ''TYPE'' \<longrightarrow>
                    parse_response b content =
                      (if dict_has d ''value'' then Inr (JObj d)
                       else Inl (MissingField ''TYPE'' ''value''))) \<and>
                 (tag = JStr ''AWAKE'' \<longrightarrow>
                    parse_response b content =
                      (if dict_has d ''value'' then Inr (JObj d)
                       else Inl (MissingField ''AWAKE'' ''value''))) \<and>
                 (tag = JStr ''SCROLL'' \<longrightarrow>
                    parse_response b content =
                      (case map_of d ''value'' of
                         None \<Rightarrow> Inl (MissingField ''SCROLL'' ''value'')
                       | Some v \<Rightarrow>
                           if v = JStr ''up'' \<or> v = JStr ''down'' then Inr (JObj d)
                           else Inl (InvalidScrollValue v))) \<and>
                 (tag = JStr ''COMPLETE'' \<longrightarrow> parse_response b content = Inr (JObj d))))"
proof (intro conjI allI impI)
  assume "json_loads b t = None"
  then show "parse_response b content = Inl (InvalidJSON t)"
    by (simp add: parse_response_text [OF rt])
next
  fix xs
  assume "json_loads b t = Some (JArr xs)"
  then show "parse_response b content =
      (if JStr ''action'' \<in> set xs then Inl TypeError else Inl MissingActionField)"
    by (simp only: parse_response_text [OF rt] option.case validate_array)
next
  fix s
  assume "json_loads b t = Some (JStr s)"
  then show "parse_response b content =
      (if sublist ''action'' s then Inl TypeError else Inl MissingActionField)"
    by (simp only: parse_response_text [OF rt] option.case validate_string)
next
  fix j
  assume "json_loads b t = Some j \<and> (j = JNull \<or> (\<exists>v. j = JBool v) \<or> (\<exists>n. j = JInt n))"
  then show "parse_response b content = Inl TypeError"
    by (auto simp add: parse_response_text [OF rt] validate_scalar)
next
  fix d
  assume l: "json_loads b t = Some (JObj d)"
  then have p: "parse_response b content = validate_action (JObj d)"
    by (simp add: parse_response_text [OF rt])
  show "case map_of d ''action'' of
               None \<Rightarrow> parse_response b content = Inl MissingActionField
             | Some tag \<Rightarrow>
                 (tag \<notin> set (map JStr [''CLICK'', ''TYPE'', ''SCROLL'', ''AWAKE'', ''COMPLETE'']) \<longrightarrow>
                    parse_response b content = Inl (InvalidActionType tag)) \<and>
                 (tag = JStr ''CLICK'' \<longrightarrow>
                    parse_response b content =
                      (if dict_has d ''grid'' then Inr (JObj d)
                       else Inl (MissingField ''CLICK'' ''grid''))) \<and>
                 (tag = JStr ''TYPE'' \<longrightarrow>
                    parse_response b content =
                      (if dict_has d ''value'' then Inr (JObj d)
                       else Inl (MissingField ''TYPE'' ''value''))) \<and>
                 (tag = JStr ''AWAKE'' \<longrightarrow>
                    parse_response b content =
                      (if dict_has d ''value'' then Inr (JObj d)
                       else Inl (MissingField ''AWAKE'' ''value''))) \<and>
                 (tag = JStr ''SCROLL'' \<longrightarrow>
                    parse_response b content =
                      (case map_of d ''value'' of
                         None \<Rightarrow> Inl (MissingField ''SCROLL'' ''value'')
                       | Some v \<Rightarrow>
                           if v = JStr ''up'' \<or> v = JStr ''down'' then Inr (JObj d)
                           else Inl (InvalidScrollValue v))) \<and>
                 (tag = JStr ''COMPLETE'' \<longrightarrow> parse_response b content = Inr (JObj d))"
  proof (cases "map_of d ''action''")
    case None
    then show ?thesis by (simp add: p validate_missing_action)
  next
    case (Some tag)
    have u: "tag \<notin> set (map JStr [''CLICK'', ''TYPE'', ''SCROLL'', ''AWAKE'', ''COMPLETE'']) \<longrightarrow>
               validate_action (JObj d) = Inl (InvalidActionType tag)"
      using validate_unknown [OF Some] by (simp add: ACTION_TYPES_def)
    show ?thesis
      using Some u validate_click [of d] validate_type [of d] validate_awake [of d]
        validate_scroll [of d] validate_complete [of d]
      by (simp add: p)
  qed
qed

theorem response_validation_witness:
  "parse_response toy_builtins [\<lparr>block_type = ''text'', block_text = ''left''\<rparr>] =
     Inl (InvalidScrollValue (JStr ''left'')) \<and>
   parse_response toy_builtins [\<lparr>block_type = ''text'', block_text = ''nogrid''\<rparr>] =
     Inl (MissingField ''CLICK'' ''grid'') \<and>
   parse_response toy_builtins [\<lparr>block_type = ''text'', block_text = ''garbage''\<rparr>] =
     Inl (InvalidJSON ''garbage'') \<and>
   parse_response toy_builtins [\<lparr>block_type = ''text'', block_text = ''click''\<rparr>] =
     Inr (JObj click_E5) \<and>
   parse_response toy_parser [\<lparr>block_type = ''text'', block_text = ''[]''\<rparr>] =
     Inl MissingActionField"
proof -
  have t: "response_text [\<lparr>block_type = ''text'', block_text = s\<rparr>] = Inr s"
    if "s \<in> {''left'', ''nogrid'', ''garbage'', ''click'', ''[]''}" for s
    using that by (auto simp: response_text_def py_strip_def py_isspace_def)
  have a: "parse_response toy_builtins [\<lparr>block_type = ''text'', block_text = ''left''\<rparr>] =
     Inl (InvalidScrollValue (JStr ''left''))"
    using response_validation [OF t [of "''left''"], of toy_builtins]
    by (simp add: toy_builtins_def scroll_left_def)
  have b: "parse_response toy_builtins [\<lparr>block_type = ''text'', block_text = ''nogrid''\<rparr>] =
     Inl (MissingField ''CLICK'' ''grid'')"
    using response_validation [OF t [of "''nogrid''"], of toy_builtins]
    by (simp add: toy_builtins_def click_without_grid_def dict_has_def)
  have c: "parse_response toy_builtins [\<lparr>block_type = ''text'', block_text = ''garbage''\<rparr>] =
     Inl (InvalidJSON ''garbage'')"
    using response_validation [OF t [of "''garbage''"], of toy_builtins]
    by (simp add: toy_builtins_def)
  have d: "parse_response toy_builtins [\<lparr>block_type = ''text'', block_text = ''click''\<rparr>] =
     Inr (JObj click_E5)"
    using response_validation [OF t [of "''click''"], of toy_builtins]
    by (simp add: toy_builtins_def click_E5_def dict_has_def)
  have e: "parse_response toy_parser [\<lparr>block_type = ''text'', block_text = ''[]''\<rparr>] =
     Inl MissingActionField"
    using response_validation [OF t [of "''[]''"], of toy_parser]
    by (simp add: toy_parser_def)
  from a b c d e show ?thesis by blast
qed

lemma grid_to_pixel_empty: "grid_to_pixel gc [] = Inl (InvalidGridFormat [])"
  by (simp add: grid_to_pixel_def single_grid_to_pixel_def py_upper_def py_strip_def)

text \<open>
  Claim C10: a \<^verbatim>\<open>CLICK\<close> whose \<^verbatim>\<open>grid\<close> is the empty string passes the validation of
  \<^verbatim>\<open>_parse_response\<close> and is returned as an action; it fails only when it is executed, where
  \<^verbatim>\<open>grid_to_pixel\<close> rejects the label as shorter than two characters, on every device and
  with or without retry.
\<close>

theorem empty_grid_deferred_to_execution:
  "validate_action (JObj click_empty_grid) = Inr (JObj click_empty_grid) \<and>
   parse_response toy_builtins [\<lparr>block_type = ''text'', block_text = ''empty''\<rparr>] =
     Inr (JObj click_empty_grid) \<and>
   grid_to_pixel gc [] = Inl (InvalidGridFormat []) \<and>
   execute_action gc device (JObj click_empty_grid) retry = Inl (InvalidGridFormat [])"
proof -
  have v: "validate_action (JObj click_empty_grid) = Inr (JObj click_empty_grid)"
    by (simp add: validate_action_def has_key_def dict_has_def dict_get_def ACTION_TYPES_def
        click_empty_grid_def)
  have t: "response_text [\<lparr>block_type = ''text'', block_text = ''empty''\<rparr>] = Inr ''empty''"
    by (simp add: response_text_def py_strip_def py_isspace_def)
  have p: "parse_response toy_builtins [\<lparr>block_type = ''text'', block_text = ''empty''\<rparr>] =
     Inr (JObj click_empty_grid)"
    by (simp add: parse_response_def t toy_builtins_def v)
  have a: "attempt_action gc ok (JStr ''CLICK'') click_empty_grid = Inl (InvalidGridFormat [])"
    for ok
    by (simp add: attempt_action_def dict_item_def click_empty_grid_def grid_to_pixel_empty)
  have i: "dict_item click_empty_grid ''action'' = Inr (JStr ''CLICK'')"
    by (simp add: dict_item_def click_empty_grid_def)
  have e: "execute_action gc device (JObj click_empty_grid) retry = Inl (InvalidGridFormat [])"
    by (simp add: execute_action_def i a numeral_2_eq_2)
  from v p grid_to_pixel_empty e show ?thesis by blast
qed

section \<open>Stuck detection\<close>

















section \<open>The run: bound, success and the requests\<close>

lemma run_loop_step:
  assumes "run_loop b gc w task save step (Suc k) st = (st', out)"
  shows "(out \<noteq> Completed \<and> out \<noteq> MaxStepsReached \<and> history st' = history st \<and>
          step_count st' = int step \<and>
          (requests st' = requests st \<or>
           requests st' = requests st @ sent_request b task (grid_image w step) (history st))) \<or>
         (\<exists>d. get_action b (api w step) task (grid_image w step) (history st) 3 = Inr (JObj d) \<and>
              ((dict_item d ''action'' = Inr (JStr ''COMPLETE'') \<and> out = Completed \<and>
                st' = recorded b w task save step d st) \<or>
               (dict_item d ''action'' \<noteq> Inr (JStr ''COMPLETE'') \<and> out = Interrupted \<and>
                st' = recorded b w task save step d st) \<or>
               (dict_item d ''action'' \<noteq> Inr (JStr ''COMPLETE'') \<and>
                run_loop b gc w task save (Suc step) k (recorded b w task save step d st) =
                  (st', out))))"
  using assms
  by (auto simp: Let_def recorded_def split: if_splits sum.splits json.splits)

lemma map_of_dict_set_other:
  "k \<noteq> key \<Longrightarrow> map_of (dict_set d key v) k = map_of d k"
proof -
  assume ne: "k \<noteq> key"
  have "map_of (map (\<lambda>(k', old). if k' = key then (k', v) else (k', old)) d) k = map_of d k"
    using ne by (induction d) auto
  moreover have "map_of (d @ [(key, v)]) k = map_of d k"
    using ne by (simp add: map_add_def split: option.splits)
  ultimately show ?thesis by (simp add: dict_set_def)
qed


lemma history_entry_action:
  "dict_item (history_entry save w step d) ''action'' = dict_item d ''action''"
  by (simp add: history_entry_def dict_item_def map_of_dict_set_other split: option.splits)

lemma run_loop_facts:
  assumes "run_loop b gc w task save step k st = (st', out)"
    and "step_count st = int step - 1" and "int (length (history st)) = int step - 1"
    and "\<forall>e \<in> set (history st). not_complete e"
  shows "int step - 1 \<le> step_count st' \<and> step_count st' \<le> int step - 1 + int k \<and>
         int (length (history st')) \<le> step_count st' \<and>
         (out = Completed \<longrightarrow> history st' \<noteq> [] \<and> \<not> not_complete (last (history st'))) \<and>
         (out \<noteq> Completed \<longrightarrow> (\<forall>e \<in> set (history st'). not_complete e)) \<and>
         (out = MaxStepsReached \<longrightarrow>
            step_count st' = int step - 1 + int k \<and> int (length (history st')) = step_count st')"
  using assms
proof (induction k arbitrary: step st)
  case 0
  then show ?case by simp
next
  case (Suc k)
  from run_loop_step [OF Suc.prems(1)]
  consider
    (abort) "out \<noteq> Completed" "out \<noteq> MaxStepsReached" "history st' = history st"
      "step_count st' = int step"
  | (finished) d where "dict_item d ''action'' = Inr (JStr ''COMPLETE'')" "out = Completed"
      "st' = recorded b w task save step d st"
  | (stopped) d where "dict_item d ''action'' \<noteq> Inr (JStr ''COMPLETE'')" "out = Interrupted"
      "st' = recorded b w task save step d st"
  | (continue) d where "dict_item d ''action'' \<noteq> Inr (JStr ''COMPLETE'')"
      "run_loop b gc w task save (Suc step) k (recorded b w task save step d st) = (st', out)"
    by blast
  then show ?case
  proof cases
    case abort
    with Suc.prems show ?thesis by simp
  next
    case finished
    with Suc.prems show ?thesis
      by (simp add: recorded_def not_complete_def history_entry_action)
  next
    case stopped
    with Suc.prems show ?thesis
      by (simp add: recorded_def not_complete_def history_entry_action)
  next
    case continue
    let ?st = "recorded b w task save step d st"
    have a: "step_count ?st = int (Suc step) - 1" by (simp add: recorded_def)
    have b: "int (length (history ?st)) = int (Suc step) - 1"
      using Suc.prems(3) by (simp add: recorded_def)
    have c: "\<forall>e \<in> set (history ?st). not_complete e"
      using Suc.prems(4) continue(1)
      by (simp add: recorded_def not_complete_def history_entry_action)
    from Suc.IH [OF continue(2) a b c] show ?thesis by simp
  qed
qed

text \<open>
  Claim C5: a run makes at most \<open>max_steps\<close> steps (the value in force, the configured
  one when the caller passes none or 0), and its success flag is set exactly when the
  history is not empty and ends with a \<^verbatim>\<open>COMPLETE\<close> action. That is the case exactly when
  the loop was left by \<^verbatim>\<open>break\<close>, and exactly when some entry is \<^verbatim>\<open>COMPLETE\<close>; a run that
  uses up all its steps has made exactly \<open>max_steps\<close> of them and is not successful.
\<close>

theorem run_bounded_and_success:
  "(let r = run_task b gc cfg w task max_steps save_screenshots;
        limit = max 0 (effective_max_steps cfg max_steps)
    in 0 \<le> steps r \<and> steps r \<le> limit \<and>
       int (length (result_history r)) \<le> steps r \<and>
       (success r \<longleftrightarrow>
          result_history r \<noteq> [] \<and>
          dict_item (last (result_history r)) ''action'' = Inr (JStr ''COMPLETE'')) \<and>
       (success r \<longleftrightarrow> result_outcome r = Completed) \<and>
       (success r \<longleftrightarrow>
          (\<exists>e \<in> set (result_history r). dict_item e ''action'' = Inr (JStr ''COMPLETE''))) \<and>
       (result_outcome r = MaxStepsReached \<longrightarrow>
          \<not> success r \<and> steps r = limit \<and> int (length (result_history r)) = limit))"
proof -
  let ?save = "case save_screenshots of None \<Rightarrow> config_save_debug_images cfg | Some s \<Rightarrow> s"
  let ?n = "nat (effective_max_steps cfg max_steps)"
  let ?st0 = "\<lparr>history = [], step_count = 0, requests = []\<rparr>"
  obtain st out where run: "run_loop b gc w task ?save 1 ?n ?st0 = (st, out)"
    by (cases "run_loop b gc w task ?save 1 ?n ?st0") auto
  have r: "run_task b gc cfg w task max_steps save_screenshots =
        \<lparr> success = (history st \<noteq> [] \<and>
                      dict_item (last (history st)) ''action'' = Inr (JStr ''COMPLETE'')),
          steps = step_count st, result_history = history st, result_outcome = out,
          result_requests = requests st \<rparr>"
    using run by (simp add: run_task_def Let_def)
  from run_loop_facts [OF run]
  have f: "0 \<le> step_count st" "step_count st \<le> int ?n"
    "int (length (history st)) \<le> step_count st"
    "out = Completed \<longrightarrow> history st \<noteq> [] \<and> \<not> not_complete (last (history st))"
    "out \<noteq> Completed \<longrightarrow> (\<forall>e \<in> set (history st). not_complete e)"
    "out = MaxStepsReached \<longrightarrow>
       step_count st = int ?n \<and> int (length (history st)) = step_count st"
    by simp_all
  have n: "int ?n = max 0 (effective_max_steps cfg max_steps)" by simp
  have s1: "(history st \<noteq> [] \<and> dict_item (last (history st)) ''action'' = Inr (JStr ''COMPLETE''))
            \<longleftrightarrow> out = Completed"
  proof
    assume a: "history st \<noteq> [] \<and> dict_item (last (history st)) ''action'' = Inr (JStr ''COMPLETE'')"
    show "out = Completed"
    proof (rule ccontr)
      assume "out \<noteq> Completed"
      with f(5) a have "not_complete (last (history st))" by simp
      with a show False by (simp add: not_complete_def)
    qed
  next
    assume "out = Completed"
    with f(4) show "history st \<noteq> [] \<and> dict_item (last (history st)) ''action'' = Inr (JStr ''COMPLETE'')"
      by (simp add: not_complete_def)
  qed
  have s2: "out = Completed \<longleftrightarrow>
            (\<exists>e \<in> set (history st). dict_item e ''action'' = Inr (JStr ''COMPLETE''))"
  proof
    assume "out = Completed"
    with f(4) have "history st \<noteq> []" "dict_item (last (history st)) ''action'' = Inr (JStr ''COMPLETE'')"
      by (simp_all add: not_complete_def)
    then show "\<exists>e \<in> set (history st). dict_item e ''action'' = Inr (JStr ''COMPLETE'')"
      using last_in_set by blast
  next
    assume "\<exists>e \<in> set (history st). dict_item e ''action'' = Inr (JStr ''COMPLETE'')"
    with f(5) show "out = Completed" by (auto simp: not_complete_def)
  qed
  have m: "out = MaxStepsReached \<longrightarrow> out \<noteq> Completed" by simp
  show ?thesis
    unfolding r Let_def using f(1,2,3,6) s1 s2 m
    by (simp only: n run_result.simps) auto
qed





lemma action_line_text:
  assumes "dict_get a ''explain'' (JStr '''') = JStr e"
  shows
    "map_of a ''action'' = Some (JStr ''CLICK'') \<Longrightarrow> dict_get a ''grid'' (JStr '''') = JStr g \<Longrightarrow>
       action_line b k a = str_int k @ ''. CLICK '' @ g @ '' - '' @ e @ [CHR 0x0A]"
    "map_of a ''action'' = Some (JStr ''TYPE'') \<Longrightarrow> dict_get a ''value'' (JStr '''') = JStr v \<Longrightarrow>
       action_line b k a =
         str_int k @ ''. TYPE '' @ [CHR 0x22] @ v @ [CHR 0x22] @ '' - '' @ e @ [CHR 0x0A]"
    "map_of a ''action'' = Some (JStr ''SCROLL'') \<Longrightarrow> dict_get a ''value'' (JStr '''') = JStr v \<Longrightarrow>
       action_line b k a = str_int k @ ''. SCROLL '' @ v @ '' - '' @ e @ [CHR 0x0A]"
    "map_of a ''action'' = Some (JStr ''AWAKE'') \<Longrightarrow> dict_get a ''value'' (JStr '''') = JStr v \<Longrightarrow>
       action_line b k a = str_int k @ ''. AWAKE '' @ v @ '' - '' @ e @ [CHR 0x0A]"
    "map_of a ''action'' = Some (JStr ''COMPLETE'') \<Longrightarrow>
       action_line b k a = str_int k @ ''. COMPLETE - '' @ e @ [CHR 0x0A]"
  using assms by (simp_all add: action_line_def Let_def fmt_def nl_def dict_get_def)

















lemma three_step_run_value:
  "success three_step_run \<and> steps three_step_run = 3 \<and>
   result_outcome three_step_run = Completed \<and>
   result_history three_step_run =
     [dict_set click_E5 ''marked_screenshot_b64'' (JStr ''marked1''), scroll_up, complete] \<and>
   length (result_requests three_step_run) = 3"
  by code_simp

lemma click_only_run_value:
  "\<not> success click_only_run \<and> steps click_only_run = 3 \<and>
   result_outcome click_only_run = MaxStepsReached \<and>
   length (result_history click_only_run) = 3"
  by code_simp

theorem run_bounded_and_success_witness:
  "success three_step_run \<and> steps three_step_run \<le> 5 \<and>
   \<not> success click_only_run \<and> steps click_only_run = 3 \<and>
   length (result_history click_only_run) = 3"
proof -
  have o1: "result_outcome three_step_run = Completed"
    using three_step_run_value by simp
  have o2: "result_outcome click_only_run = MaxStepsReached"
    using click_only_run_value by simp
  have l1: "max 0 (effective_max_steps toy_config (Some 5)) = 5"
    by (simp add: effective_max_steps_def)
  have l2: "max 0 (effective_max_steps toy_config (Some 3)) = 3"
    by (simp add: effective_max_steps_def)
  from run_bounded_and_success [of toy_builtins test_config toy_config
      "scripted_world [''click'', ''scroll'', ''done'']" "''goal''" "Some 5" None]
  have a: "success three_step_run \<and> steps three_step_run \<le> 5"
    using o1 unfolding Let_def l1 three_step_run_def by blast
  from run_bounded_and_success [of toy_builtins test_config toy_config
      "scripted_world [''click'', ''click'', ''click'', ''click'']" "''goal''" "Some 3" None]
  have b: "\<not> success click_only_run \<and> steps click_only_run = 3 \<and>
           length (result_history click_only_run) = 3"
    using o2 unfolding Let_def l2 click_only_run_def by auto
  from a b show ?thesis by blast
qed


end
